theory Spec2Isabelle
  imports Main "HOL-Library.Sublist"
begin

section \<open>The runtime and the libraries the script calls\<close>

text \<open>
  The repository's credential logic is the script \<^verbatim>\<open>api/test_api_key_logic.js\<close>. It calls
  three things that are not part of the repository: \<^verbatim>\<open>uuidv4\<close> of the uuid package,
  \<^verbatim>\<open>bcrypt.hash\<close> and \<^verbatim>\<open>bcrypt.compareSync\<close> of bcryptjs, and the \<^verbatim>\<open>RegExp\<close> of the
  JavaScript runtime. The first two are taken as parameters, with their documented output
  shapes as predicates; the third is modelled on a fragment of the pattern language.
  JavaScript strings are modelled as \<^typ>\<open>string\<close>, one \<^typ>\<open>char\<close> per code unit.
\<close>

subsection \<open>Strings\<close>

definition substr0 :: "string \<Rightarrow> nat \<Rightarrow> string" where
  \<comment> \<open>\<^verbatim>\<open>s.substr(0, n)\<close>: the first \<open>n\<close> code units, or all of \<open>s\<close> when it is shorter.\<close>
  "substr0 s n = take n s"

definition repeat :: "string \<Rightarrow> nat \<Rightarrow> string" where
  \<comment> \<open>\<^verbatim>\<open>s.repeat(n)\<close>\<close>
  "repeat s n = concat (replicate n s)"

subsection \<open>uuid\<close>

definition hex_digit :: "char \<Rightarrow> bool" where
  "hex_digit c = (c \<in> set ''0123456789abcdef'')"

definition uuid_template :: string where
  "uuid_template = ''xxxxxxxx-xxxx-4xxx-yxxx-xxxxxxxxxxxx''"

definition uuid_slot :: "char \<Rightarrow> char \<Rightarrow> bool" where
  \<comment> \<open>What the template character \<open>t\<close> allows at its position.\<close>
  "uuid_slot t c =
     (if t = CHR ''x'' then hex_digit c
      else if t = CHR ''y'' then c \<in> set ''89ab''
      else c = t)"

definition is_uuidv4 :: "string \<Rightarrow> bool" where
  \<comment> \<open>The canonical form \<^verbatim>\<open>uuidv4()\<close> returns: 36 characters, lower-case hexadecimal digits
      in groups of 8, 4, 4, 4 and 12 separated by hyphens, version digit 4, variant 8..b.\<close>
  "is_uuidv4 s = list_all2 uuid_slot uuid_template s"

subsection \<open>bcryptjs\<close>

type_synonym bcrypt_hash = "string \<Rightarrow> nat \<Rightarrow> string"
  \<comment> \<open>\<^verbatim>\<open>bcrypt.hash(s, rounds)\<close>, the salt it draws being fixed for the run\<close>

type_synonym bcrypt_compare = "string \<Rightarrow> string \<Rightarrow> bool"
  \<comment> \<open>\<^verbatim>\<open>bcrypt.compareSync(s, hash)\<close>\<close>

definition bcrypt_alphabet :: "char \<Rightarrow> bool" where
  "bcrypt_alphabet c =
     (c \<in> set ''$./ABCDEFGHIJKLMNOPQRSTUVWXYZabcdefghijklmnopqrstuvwxyz0123456789'')"

definition is_bcrypt_digest :: "string \<Rightarrow> bool" where
  \<comment> \<open>The shape of a bcrypt hash string: 60 characters, \<^verbatim>\<open>$2b$10$\<close> followed by 22
      characters of salt and 31 of hash in bcrypt's base-64 alphabet.\<close>
  "is_bcrypt_digest h = (length h = 60 \<and> list_all bcrypt_alphabet h)"

subsection \<open>RegExp\<close>

text \<open>
  The model covers patterns built from literal characters, \<^verbatim>\<open>.\<close>, the assertions \<^verbatim>\<open>^\<close> and
  \<^verbatim>\<open>$\<close>, alternation, capturing groups, the quantifiers \<^verbatim>\<open>*\<close>, \<^verbatim>\<open>+\<close>, \<^verbatim>\<open>?\<close> (greedy or
  lazy) and a backslash before a syntax character. For these \<open>RegExp\<close> returns the compiled
  pattern or \<open>SyntaxError\<close> as the runtime does. A pattern that uses anything else
  (character classes, braces, \<^verbatim>\<open>(?\<close> groups, other escapes) is answered \<open>OutsideFragment\<close>:
  the model does not say what the runtime does with it.
\<close>

datatype regex = Empty | Lit char | Dot | Bol | Eol
  | Cat regex regex | Alt regex regex | Star regex

datatype failure = SyntaxError | OutsideFragment

definition backslash :: char where
  "backslash = CHR 0x5C"

definition syntax_character :: "char \<Rightarrow> bool" where
  \<comment> \<open>ECMAScript's SyntaxCharacter\<close>
  "syntax_character c = (c \<in> set ''^$.*+?()[]{}|'' \<or> c = backslash)"

datatype last_term = NoAtom | Atom | Quantified

datatype frame = Frame (fr_alts: "regex list") (fr_terms: "regex list") (fr_last: last_term)
  \<comment> \<open>A disjunction being read: its finished alternatives and the terms of the current
      alternative, latest first, and whether a quantifier may follow.\<close>

definition empty_frame :: frame where
  "empty_frame = Frame [] [] NoAtom"

definition seq :: "regex list \<Rightarrow> regex" where
  "seq ts = foldr Cat ts Empty"

fun alt :: "regex list \<Rightarrow> regex" where
  "alt [] = Empty"
| "alt [r] = r"
| "alt (r # rs) = Alt r (alt rs)"

definition close_frame :: "frame \<Rightarrow> regex" where
  "close_frame f = alt (rev (seq (rev (fr_terms f)) # fr_alts f))"

definition push_atom :: "regex \<Rightarrow> frame \<Rightarrow> frame" where
  "push_atom r f = Frame (fr_alts f) (r # fr_terms f) Atom"

definition push_assertion :: "regex \<Rightarrow> frame \<Rightarrow> frame" where
  "push_assertion r f = Frame (fr_alts f) (r # fr_terms f) NoAtom"

definition next_alternative :: "frame \<Rightarrow> frame" where
  "next_alternative f = Frame (seq (rev (fr_terms f)) # fr_alts f) [] NoAtom"

definition quantify :: "char \<Rightarrow> regex \<Rightarrow> regex" where
  "quantify q r =
     (if q = CHR ''*'' then Star r
      else if q = CHR ''+'' then Cat r (Star r)
      else Alt r Empty)"

fun parse :: "string \<Rightarrow> frame \<Rightarrow> frame list \<Rightarrow> failure + regex" where
  "parse [] f fs = (if fs = [] then Inr (close_frame f) else Inl SyntaxError)"
| "parse (c # cs) f fs =
     (if c = CHR ''('' then
        (case cs of
           [] \<Rightarrow> Inl SyntaxError
         | d # ds \<Rightarrow> if d = CHR ''?'' then Inl OutsideFragment
                    else parse cs empty_frame (f # fs))
      else if c = CHR '')'' then
        (case fs of
           [] \<Rightarrow> Inl SyntaxError
         | g # gs \<Rightarrow> parse cs (push_atom (close_frame f) g) gs)
      else if c = CHR ''|'' then parse cs (next_alternative f) fs
      else if c = CHR ''*'' \<or> c = CHR ''+'' \<or> c = CHR ''?'' then
        (case fr_last f of
           NoAtom \<Rightarrow> Inl SyntaxError
         | Atom \<Rightarrow>
             (case fr_terms f of
                [] \<Rightarrow> Inl SyntaxError
              | t # ts \<Rightarrow> parse cs (Frame (fr_alts f) (quantify c t # ts) Quantified) fs)
         | Quantified \<Rightarrow>
             if c = CHR ''?'' then parse cs (Frame (fr_alts f) (fr_terms f) NoAtom) fs
             else Inl SyntaxError)
      else if c = CHR ''^'' then parse cs (push_assertion Bol f) fs
      else if c = CHR ''$'' then parse cs (push_assertion Eol f) fs
      else if c = CHR ''.'' then parse cs (push_atom Dot f) fs
      else if c = backslash then
        (case cs of
           [] \<Rightarrow> Inl SyntaxError
         | d # ds \<Rightarrow> if syntax_character d then parse ds (push_atom (Lit d) f) fs
                    else Inl OutsideFragment)
      else if c \<in> set ''[]{}'' then Inl OutsideFragment
      else parse cs (push_atom (Lit c) f) fs)"

definition RegExp :: "string \<Rightarrow> failure + regex" where
  \<comment> \<open>\<^verbatim>\<open>new RegExp(pattern, 'g')\<close>\<close>
  "RegExp pattern = parse pattern empty_frame []"

definition line_terminator :: "char \<Rightarrow> bool" where
  "line_terminator c = (c = CHR 0x0A \<or> c = CHR 0x0D)"

fun closure :: "nat \<Rightarrow> (nat \<Rightarrow> nat list) \<Rightarrow> nat list \<Rightarrow> nat list" where
  \<comment> \<open>The positions reachable from \<open>acc\<close> by repeating \<open>step\<close>, in at most \<open>n\<close> rounds.\<close>
  "closure 0 step acc = acc"
| "closure (Suc n) step acc =
     (let new = filter (\<lambda>j. j \<notin> set acc) (remdups (concat (map step acc)))
      in if new = [] then acc else closure n step (acc @ new))"

primrec ends :: "regex \<Rightarrow> string \<Rightarrow> nat \<Rightarrow> nat list" where
  \<comment> \<open>The positions where a match of the pattern that starts at position \<open>i\<close> of \<open>s\<close> can
      end. A repetition never leaves the string, so \<open>length s\<close> rounds reach every end.\<close>
  "ends Empty s i = [i]"
| "ends (Lit c) s i = (if i < length s \<and> s ! i = c then [Suc i] else [])"
| "ends Dot s i = (if i < length s \<and> \<not> line_terminator (s ! i) then [Suc i] else [])"
| "ends Bol s i = (if i = 0 then [i] else [])"
| "ends Eol s i = (if i = length s then [i] else [])"
| "ends (Cat a b) s i = concat (map (ends b s) (ends a s i))"
| "ends (Alt a b) s i = ends a s i @ ends b s i"
| "ends (Star a) s i = closure (length s) (ends a s) [i]"

definition regex_test :: "regex \<Rightarrow> string \<Rightarrow> bool" where
  \<comment> \<open>\<^verbatim>\<open>regex.test(s)\<close> on a fresh regex (\<open>lastIndex\<close> 0): is there a match starting anywhere\<close>
  "regex_test r s = list_ex (\<lambda>i. ends r s i \<noteq> []) [0..<Suc (length s)]"

section \<open>The script\<close>

record dbDocument =
  apiKey :: string
  hashedApiKey :: string
  revokedAt :: "nat option"

definition storedApiKey :: "string \<Rightarrow> string" where
  \<comment> \<open>\<^verbatim>\<open>apiKey.substr(0, 17) + '*'.repeat(18)\<close>\<close>
  "storedApiKey key = substr0 key 17 @ repeat ''*'' 18"

definition mockDbApiKey :: "bcrypt_hash \<Rightarrow> string \<Rightarrow> dbDocument" where
  \<comment> \<open>The document built from a generated key \<open>key\<close> (the value of \<^verbatim>\<open>uuidv4()\<close>).\<close>
  "mockDbApiKey hash key =
     \<lparr>apiKey = storedApiKey key, hashedApiKey = hash key 10, revokedAt = None\<rparr>"

datatype outcome = SUCCESS_Verified | FAILURE_Bcrypt | FAILURE_Regex
  \<comment> \<open>the last line the script prints: \<^verbatim>\<open>SUCCESS: API Key Verified\<close>,
      \<^verbatim>\<open>FAILURE: Bcrypt failed\<close>, \<^verbatim>\<open>FAILURE: Regex failed to find document\<close>\<close>

datatype call = DbFind | BcryptCompare
  \<comment> \<open>the simulated database find (\<^verbatim>\<open>regex.test\<close> on the stored value) and the call of
      \<^verbatim>\<open>bcrypt.compareSync\<close>, in the order the script makes them\<close>

definition isMatch :: "string \<Rightarrow> dbDocument \<Rightarrow> failure + bool" where
  \<comment> \<open>The regex construction and the simulated database find.\<close>
  "isMatch incomingApiKey doc =
     (let prefix = substr0 incomingApiKey 17 in
      case RegExp (CHR ''^'' # prefix) of
        Inl e \<Rightarrow> Inl e
      | Inr regex \<Rightarrow> Inr (regex_test regex (apiKey doc)))"

definition validation :: "bcrypt_compare \<Rightarrow> string \<Rightarrow> dbDocument \<Rightarrow> failure + outcome \<times> call list" where
  \<comment> \<open>Part 2 of the script, for any incoming key and any stored document.\<close>
  "validation compareSync incomingApiKey doc =
     (case isMatch incomingApiKey doc of
        Inl e \<Rightarrow> Inl e
      | Inr m \<Rightarrow>
          if m then
            (let isValid = compareSync incomingApiKey (hashedApiKey doc) in
             if isValid then Inr (SUCCESS_Verified, [DbFind, BcryptCompare])
             else Inr (FAILURE_Bcrypt, [DbFind, BcryptCompare]))
          else Inr (FAILURE_Regex, [DbFind]))"


subsection \<open>Issuance for an owner\<close>


subsection \<open>Revocation\<close>

definition revoke :: "nat \<Rightarrow> dbDocument \<Rightarrow> dbDocument" where
  \<comment> \<open>Modelled from the spec: Revoke, which the script does not have. It sets \<open>revokedAt\<close>
      to the current time if it is not already set and leaves a revoked record as it is.\<close>
  "revoke now doc = (case revokedAt doc of None \<Rightarrow> doc\<lparr>revokedAt := Some now\<rparr> | Some t \<Rightarrow> doc)"

subsection \<open>A stand-in for bcryptjs\<close>

text \<open>
  To run the script's model on concrete keys, a stand-in with the output shape of bcrypt
  and no cryptographic content: the digest is the \<^verbatim>\<open>$2b$10$\<close> header followed by the first 53
  characters of the input, mapped into bcrypt's alphabet and padded with dots. On the keys
  used below it answers as bcrypt does: it accepts a key against the digest of that key
  and rejects every other key.
\<close>

definition stub_char :: "char \<Rightarrow> char" where
  "stub_char c = (if bcrypt_alphabet c \<and> c \<noteq> CHR ''$'' then c else CHR ''.'')"

definition stub_hash :: bcrypt_hash where
  "stub_hash s rounds = ''$2b$10$'' @ take 53 (map stub_char s @ replicate 53 CHR ''.'')"

definition stub_compareSync :: bcrypt_compare where
  "stub_compareSync s h = (h = stub_hash s 10)"

section \<open>Properties of the runtime model\<close>

subsection \<open>Generated keys\<close>

lemma is_uuidv4_length: "is_uuidv4 key \<Longrightarrow> length key = 36"
  by (auto simp: is_uuidv4_def uuid_template_def dest: list_all2_lengthD)

lemma set_uuid_template: "set uuid_template = {CHR ''x'', CHR ''-'', CHR ''4'', CHR ''y''}"
  by (auto simp: uuid_template_def)

lemma uuid_slot_literal:
  assumes "t \<in> set uuid_template" and "uuid_slot t c"
  shows "\<not> syntax_character c"
proof -
  have "c \<in> set ''0123456789abcdef-''"
    using assms unfolding set_uuid_template
    by (auto simp: uuid_slot_def hex_digit_def split: if_splits)
  then show ?thesis
    by (auto simp: syntax_character_def backslash_def)
qed

lemma is_uuidv4_literal:
  assumes "is_uuidv4 key"
  shows "\<forall>c\<in>set key. \<not> syntax_character c"
proof
  fix c assume "c \<in> set key"
  then obtain i where i: "i < length key" "key ! i = c"
    by (auto simp: in_set_conv_nth)
  have l2: "list_all2 uuid_slot uuid_template key"
    using assms by (simp add: is_uuidv4_def)
  then have "length uuid_template = length key"
    by (rule list_all2_lengthD)
  with i l2 have "uuid_slot (uuid_template ! i) c" "uuid_template ! i \<in> set uuid_template"
    by (auto dest: list_all2_nthD2)
  then show "\<not> syntax_character c"
    using uuid_slot_literal by blast
qed

lemma is_uuidv4_hyphen:
  assumes "is_uuidv4 key"
  shows "CHR ''-'' \<in> set key"
proof -
  have l2: "list_all2 uuid_slot uuid_template key"
    using assms by (simp add: is_uuidv4_def)
  then have len: "length key = 36"
    by (auto simp: uuid_template_def dest: list_all2_lengthD)
  from l2 have "uuid_slot (uuid_template ! 8) (key ! 8)"
    by (rule list_all2_nthD) (simp add: uuid_template_def)
  then have "key ! 8 = CHR ''-''"
    by (simp add: uuid_template_def uuid_slot_def)
  moreover have "key ! 8 \<in> set key"
    by (rule nth_mem) (simp add: len)
  ultimately show ?thesis by simp
qed

lemma uuid_prefix_literal:
  assumes "is_uuidv4 key"
  shows "\<forall>c\<in>set (substr0 key 17). \<not> syntax_character c"
  using is_uuidv4_literal [OF assms] by (auto simp: substr0_def dest: in_set_takeD)

subsection \<open>Patterns of literal characters\<close>

lemma parse_literal:
  "\<not> syntax_character c \<Longrightarrow> parse (c # cs) f fs = parse cs (push_atom (Lit c) f) fs"
  by (simp add: syntax_character_def)

lemma parse_literals:
  "\<forall>c\<in>set p. \<not> syntax_character c \<Longrightarrow>
   parse (p @ rest) (Frame as ts l) fs =
     parse rest (Frame as (rev (map Lit p) @ ts) (if p = [] then l else Atom)) fs"
proof (induction p arbitrary: ts l)
  case Nil
  then show ?case by simp
next
  case (Cons c p)
  then show ?case
    by (simp add: parse_literal push_atom_def del: parse.simps)
qed

lemma seq_Cons: "seq (t # ts) = Cat t (seq ts)"
  by (simp add: seq_def)

lemma RegExp_anchored_literal:
  assumes "\<forall>c\<in>set p. \<not> syntax_character c"
  shows "RegExp (CHR ''^'' # p) = Inr (Cat Bol (seq (map Lit p)))"
proof -
  have "RegExp (CHR ''^'' # p) = parse (p @ []) (Frame [] [Bol] NoAtom) []"
    by (simp add: RegExp_def empty_frame_def push_assertion_def)
  also have "\<dots> = parse [] (Frame [] (rev (map Lit p) @ [Bol]) (if p = [] then NoAtom else Atom)) []"
    using assms by (rule parse_literals)
  also have "\<dots> = Inr (Cat Bol (seq (map Lit p)))"
    by (simp add: close_frame_def seq_Cons rev_map)
  finally show ?thesis .
qed

lemma ends_literals:
  "ends (seq (map Lit p)) s i = (if take (length p) (drop i s) = p then [i + length p] else [])"
proof (induction p arbitrary: i)
  case Nil
  then show ?case by (simp add: seq_def)
next
  case (Cons c p)
  show ?case
  proof (cases "i < length s")
    case True
    then have d: "drop i s = s ! i # drop (Suc i) s"
      by (simp add: Cons_nth_drop_Suc)
    show ?thesis
      using True by (simp add: seq_Cons Cons.IH d)
  next
    case False
    then show ?thesis by (simp add: seq_Cons)
  qed
qed

lemma test_anchored_literal:
  "regex_test (Cat Bol (seq (map Lit p))) s \<longleftrightarrow> prefix p s"
proof -
  have "regex_test (Cat Bol (seq (map Lit p))) s \<longleftrightarrow> ends (seq (map Lit p)) s 0 \<noteq> []"
    by (auto simp: regex_test_def list_ex_iff)
  also have "\<dots> \<longleftrightarrow> take (length p) s = p"
    by (simp add: ends_literals)
  also have "\<dots> \<longleftrightarrow> prefix p s"
    by (metis prefix_def append_take_drop_id append_eq_conv_conj)
  finally show ?thesis .
qed

section \<open>Properties of the script\<close>

subsection \<open>Shared facts\<close>

lemma repeat_single: "repeat [c] n = replicate n c"
  by (induction n) (simp_all add: repeat_def)

lemma storedApiKey_eq: "storedApiKey key = take 17 key @ replicate 18 CHR ''*''"
  by (simp add: storedApiKey_def substr0_def repeat_single)

lemma prefix_storedApiKey: "prefix (substr0 key 17) (storedApiKey key)"
  by (simp add: storedApiKey_def)

lemma mockDbApiKey_fields:
  "apiKey (mockDbApiKey hash key) = storedApiKey key"
  "hashedApiKey (mockDbApiKey hash key) = hash key 10"
  "revokedAt (mockDbApiKey hash key) = None"
  by (simp_all add: mockDbApiKey_def)

lemma isMatch_literal:
  assumes "\<forall>c\<in>set (substr0 incomingApiKey 17). \<not> syntax_character c"
  shows "isMatch incomingApiKey doc = Inr (prefix (substr0 incomingApiKey 17) (apiKey doc))"
  using assms by (simp add: isMatch_def RegExp_anchored_literal test_anchored_literal)

lemma isMatch_own_document:
  assumes "is_uuidv4 key"
  shows "isMatch key (mockDbApiKey hash key) = Inr True"
  using uuid_prefix_literal [OF assms]
  by (simp add: isMatch_literal mockDbApiKey_fields prefix_storedApiKey)

lemma validation_matched:
  "isMatch incomingApiKey doc = Inr True \<Longrightarrow>
   validation compareSync incomingApiKey doc =
     Inr (if compareSync incomingApiKey (hashedApiKey doc) then SUCCESS_Verified else FAILURE_Bcrypt,
          [DbFind, BcryptCompare])"
  by (simp add: validation_def)

lemma validation_unmatched:
  "isMatch incomingApiKey doc = Inr False \<Longrightarrow>
   validation compareSync incomingApiKey doc = Inr (FAILURE_Regex, [DbFind])"
  by (simp add: validation_def)

lemma validation_success:
  "validation compareSync incomingApiKey doc = Inr (SUCCESS_Verified, calls) \<Longrightarrow>
   compareSync incomingApiKey (hashedApiKey doc)"
  by (auto simp: validation_def split: sum.splits if_splits)

lemma revoke_fields:
  "apiKey (revoke now doc) = apiKey doc"
  "hashedApiKey (revoke now doc) = hashedApiKey doc"
  by (simp_all add: revoke_def split: option.splits)

lemma isMatch_revoke: "isMatch incomingApiKey (revoke now doc) = isMatch incomingApiKey doc"
  by (simp add: isMatch_def revoke_fields split: sum.splits)

lemma validation_revoke:
  "validation compareSync incomingApiKey (revoke now doc) = validation compareSync incomingApiKey doc"
  by (simp add: validation_def isMatch_revoke revoke_fields split: sum.splits)

lemma prefix_same_length: "length p = length q \<Longrightarrow> prefix p (q @ r) \<longleftrightarrow> p = q"
  by (auto simp: prefix_def)

lemma isMatch_altered_prefix:
  assumes "is_uuidv4 key" and "i < 17" and "c \<noteq> key ! i" and "\<not> syntax_character c"
  shows "isMatch (key[i := c]) (mockDbApiKey hash key) = Inr False"
proof -
  have len: "length key = 36"
    using assms(1) by (rule is_uuidv4_length)
  have t: "substr0 (key[i := c]) 17 = (take 17 key)[i := c]"
    by (simp add: substr0_def take_update_swap)
  have "set ((take 17 key)[i := c]) \<subseteq> insert c (set (take 17 key))"
    by (rule set_update_subset_insert)
  moreover have "\<forall>x\<in>set (take 17 key). \<not> syntax_character x"
    using uuid_prefix_literal [OF assms(1)] by (simp add: substr0_def)
  ultimately have lit: "\<forall>x\<in>set (substr0 (key[i := c]) 17). \<not> syntax_character x"
    using assms(4) unfolding t by blast
  have "(take 17 key)[i := c] ! i = c"
    using assms(2) len by simp
  moreover have "take 17 key ! i = key ! i"
    using assms(2) by simp
  ultimately have ne: "(take 17 key)[i := c] \<noteq> take 17 key"
    using assms(3) by metis
  have "\<not> prefix ((take 17 key)[i := c]) (take 17 key @ replicate 18 CHR ''*'')"
    using ne by (simp add: prefix_same_length)
  then show ?thesis
    by (simp add: isMatch_literal [OF lit] t mockDbApiKey_fields storedApiKey_eq)
qed

lemma isMatch_altered_suffix:
  assumes "is_uuidv4 key" and "17 \<le> i"
  shows "isMatch (key[i := c]) (mockDbApiKey hash key) = Inr True"
proof -
  have t: "substr0 (key[i := c]) 17 = substr0 key 17"
    using assms(2) by (simp add: substr0_def)
  have "isMatch (key[i := c]) (mockDbApiKey hash key) = isMatch key (mockDbApiKey hash key)"
    by (simp add: isMatch_def t)
  then show ?thesis
    using isMatch_own_document [OF assms(1)] by simp
qed

lemma isMatch_same_prefix:
  "substr0 a 17 = substr0 b 17 \<Longrightarrow> isMatch a doc = isMatch b doc"
  by (simp add: isMatch_def)

lemma prefix_full_length: "prefix p s \<longleftrightarrow> take (length p) s = p"
  by (metis prefix_def append_take_drop_id append_eq_conv_conj)

lemma bcrypt_digest_no_hyphen:
  assumes "is_bcrypt_digest h"
  shows "CHR ''-'' \<notin> set h"
proof
  assume "CHR ''-'' \<in> set h"
  then have "bcrypt_alphabet CHR ''-''"
    using assms by (simp add: is_bcrypt_digest_def list_all_iff)
  then show False
    by (simp add: bcrypt_alphabet_def)
qed

lemma parse_unterminated_group:
  assumes "\<forall>c\<in>set b. \<not> syntax_character c"
  shows "parse (CHR ''('' # b) f fs = Inl SyntaxError"
proof (cases b)
  case Nil
  then show ?thesis by simp
next
  case (Cons d ds)
  then have "\<not> syntax_character d"
    using assms by simp
  then have q: "d \<noteq> CHR ''?''"
    by (auto simp: syntax_character_def)
  have "parse (CHR ''('' # b) f fs = parse (b @ []) (Frame [] [] NoAtom) (f # fs)"
    using q Cons by (simp add: empty_frame_def)
  also have "\<dots> = parse [] (Frame [] (rev (map Lit b) @ []) (if b = [] then NoAtom else Atom)) (f # fs)"
    using assms by (rule parse_literals)
  also have "\<dots> = Inl SyntaxError"
    by simp
  finally show ?thesis .
qed

lemma RegExp_unterminated_group:
  assumes "\<forall>c\<in>set a. \<not> syntax_character c" and "\<forall>c\<in>set b. \<not> syntax_character c"
  shows "RegExp (CHR ''^'' # a @ CHR ''('' # b) = Inl SyntaxError"
proof -
  have "RegExp (CHR ''^'' # a @ CHR ''('' # b) = parse (a @ CHR ''('' # b) (Frame [] [Bol] NoAtom) []"
    by (simp add: RegExp_def empty_frame_def push_assertion_def)
  also have "\<dots> = parse (CHR ''('' # b)
      (Frame [] (rev (map Lit a) @ [Bol]) (if a = [] then NoAtom else Atom)) []"
    using assms(1) by (rule parse_literals)
  also have "\<dots> = Inl SyntaxError"
    using assms(2) by (rule parse_unterminated_group)
  finally show ?thesis .
qed

lemma sample_key_is_uuidv4: "is_uuidv4 ''123e4567-e89b-42d3-a456-426614174000''"
  by (simp add: is_uuidv4_def uuid_template_def uuid_slot_def hex_digit_def)

subsection \<open>Verification of a key just issued\<close>




subsection \<open>Revoked documents\<close>

text \<open>
  The document carries \<open>revokedAt\<close>, but the validation reads only \<open>apiKey\<close> and
  \<open>hashedApiKey\<close>. A key whose document has been revoked is still verified.
\<close>

theorem revoked_key_still_verifies:
  "revokedAt (revoke 1 (mockDbApiKey stub_hash ''123e4567-e89b-42d3-a456-426614174000'')) = Some 1
   \<and> validation stub_compareSync ''123e4567-e89b-42d3-a456-426614174000''
        (revoke 1 (mockDbApiKey stub_hash ''123e4567-e89b-42d3-a456-426614174000''))
       = Inr (SUCCESS_Verified, [DbFind, BcryptCompare])"
  by code_simp

text \<open>
  C2, as the script has it. Revoking the document of an issued key sets \<open>revokedAt\<close>,
  and the validation never reads it: for every presented key the result on the revoked
  document is the result on the document before revocation, so the previously valid key is
  still verified.
\<close>

theorem validation_ignores_revocation:
  assumes "is_uuidv4 key" and "compareSync key (hash key 10)"
  shows "revokedAt (revoke now (mockDbApiKey hash key)) = Some now
    \<and> validation compareSync incomingApiKey (revoke now (mockDbApiKey hash key))
        = validation compareSync incomingApiKey (mockDbApiKey hash key)
    \<and> validation compareSync key (revoke now (mockDbApiKey hash key))
        = Inr (SUCCESS_Verified, [DbFind, BcryptCompare])"
proof -
  have r: "revokedAt (revoke now (mockDbApiKey hash key)) = Some now"
    by (simp add: revoke_def mockDbApiKey_fields)
  have m: "isMatch key (mockDbApiKey hash key) = Inr True"
    using assms(1) by (rule isMatch_own_document)
  have "validation compareSync key (mockDbApiKey hash key)
      = Inr (SUCCESS_Verified, [DbFind, BcryptCompare])"
    using assms(2) by (simp add: validation_matched [OF m] mockDbApiKey_fields)
  with r show ?thesis
    by (simp add: validation_revoke)
qed

theorem validation_ignores_revocation_witness:
  "is_uuidv4 ''123e4567-e89b-42d3-a456-426614174000''
   \<and> stub_compareSync ''123e4567-e89b-42d3-a456-426614174000''
        (stub_hash ''123e4567-e89b-42d3-a456-426614174000'' 10)
   \<and> revokedAt (revoke 7 (mockDbApiKey stub_hash ''123e4567-e89b-42d3-a456-426614174000'')) = Some 7
   \<and> validation stub_compareSync ''123e4567-e89b-42d3-a456-426614174000''
        (revoke 7 (mockDbApiKey stub_hash ''123e4567-e89b-42d3-a456-426614174000''))
       = Inr (SUCCESS_Verified, [DbFind, BcryptCompare])"
proof -
  have u: "is_uuidv4 ''123e4567-e89b-42d3-a456-426614174000''"
    by (rule sample_key_is_uuidv4)
  have c: "stub_compareSync ''123e4567-e89b-42d3-a456-426614174000''
        (stub_hash ''123e4567-e89b-42d3-a456-426614174000'' 10)"
    by (simp add: stub_compareSync_def)
  show ?thesis
    using u c validation_ignores_revocation
      [where hash = stub_hash and compareSync = stub_compareSync and now = 7
        and incomingApiKey = "''123e4567-e89b-42d3-a456-426614174000''", OF u c]
    by blast
qed

subsection \<open>A key with one character changed\<close>

text \<open>
  Changing the first character of a valid key into an opening parenthesis makes the
  pattern invalid, and the validation raises instead of reporting a failure; changing it
  into a dot leaves a pattern that still matches the stored value.
\<close>

theorem altered_key_raises_or_matches:
  "CHR ''('' \<noteq> ''123e4567-e89b-42d3-a456-426614174000'' ! 0
   \<and> validation stub_compareSync (''123e4567-e89b-42d3-a456-426614174000''[0 := CHR ''(''])
        (mockDbApiKey stub_hash ''123e4567-e89b-42d3-a456-426614174000'') = Inl SyntaxError
   \<and> CHR ''.'' \<noteq> ''123e4567-e89b-42d3-a456-426614174000'' ! 0
   \<and> isMatch (''123e4567-e89b-42d3-a456-426614174000''[0 := CHR ''.''])
        (mockDbApiKey stub_hash ''123e4567-e89b-42d3-a456-426614174000'') = Inr True"
  by code_simp

text \<open>
  C3, as the script has it. For every generated key and every position, the key with the
  character at that position replaced by a different one is never verified, bcrypt
  rejecting the changed key against the stored digest. Past the prefix the lookup matches
  and the digest comparison fails; within the prefix, when the new character is not a
  syntax character of the pattern language, the lookup finds no document and no comparison
  is made.
\<close>

theorem altered_key_never_verifies:
  assumes "is_uuidv4 key" and "i < length key" and "c \<noteq> key ! i"
    and "\<not> compareSync (key[i := c]) (hash key 10)"
  shows "(17 \<le> i \<longrightarrow> validation compareSync (key[i := c]) (mockDbApiKey hash key)
             = Inr (FAILURE_Bcrypt, [DbFind, BcryptCompare]))
    \<and> (i < 17 \<and> \<not> syntax_character c \<longrightarrow>
          validation compareSync (key[i := c]) (mockDbApiKey hash key) = Inr (FAILURE_Regex, [DbFind]))
    \<and> (\<forall>calls. validation compareSync (key[i := c]) (mockDbApiKey hash key)
          \<noteq> Inr (SUCCESS_Verified, calls))"
proof (intro conjI impI allI)
  assume "17 \<le> i"
  then have "isMatch (key[i := c]) (mockDbApiKey hash key) = Inr True"
    using assms(1) by (simp add: isMatch_altered_suffix)
  then show "validation compareSync (key[i := c]) (mockDbApiKey hash key)
      = Inr (FAILURE_Bcrypt, [DbFind, BcryptCompare])"
    using assms(4) by (simp add: validation_matched mockDbApiKey_fields)
next
  assume "i < 17 \<and> \<not> syntax_character c"
  then have "isMatch (key[i := c]) (mockDbApiKey hash key) = Inr False"
    using assms(1,3) by (simp add: isMatch_altered_prefix)
  then show "validation compareSync (key[i := c]) (mockDbApiKey hash key) = Inr (FAILURE_Regex, [DbFind])"
    by (rule validation_unmatched)
next
  fix calls
  show "validation compareSync (key[i := c]) (mockDbApiKey hash key) \<noteq> Inr (SUCCESS_Verified, calls)"
    using assms(4) validation_success [of compareSync "key[i := c]" "mockDbApiKey hash key" calls]
    by (auto simp: mockDbApiKey_fields)
qed

theorem altered_key_never_verifies_witness:
  "is_uuidv4 ''123e4567-e89b-42d3-a456-426614174000''
   \<and> CHR ''f'' \<noteq> ''123e4567-e89b-42d3-a456-426614174000'' ! 20
   \<and> \<not> stub_compareSync (''123e4567-e89b-42d3-a456-426614174000''[20 := CHR ''f''])
          (stub_hash ''123e4567-e89b-42d3-a456-426614174000'' 10)
   \<and> validation stub_compareSync (''123e4567-e89b-42d3-a456-426614174000''[20 := CHR ''f''])
        (mockDbApiKey stub_hash ''123e4567-e89b-42d3-a456-426614174000'')
       = Inr (FAILURE_Bcrypt, [DbFind, BcryptCompare])
   \<and> CHR ''f'' \<noteq> ''123e4567-e89b-42d3-a456-426614174000'' ! 3
   \<and> \<not> syntax_character CHR ''f''
   \<and> \<not> stub_compareSync (''123e4567-e89b-42d3-a456-426614174000''[3 := CHR ''f''])
          (stub_hash ''123e4567-e89b-42d3-a456-426614174000'' 10)
   \<and> validation stub_compareSync (''123e4567-e89b-42d3-a456-426614174000''[3 := CHR ''f''])
        (mockDbApiKey stub_hash ''123e4567-e89b-42d3-a456-426614174000'')
       = Inr (FAILURE_Regex, [DbFind])"
proof -
  have u: "is_uuidv4 ''123e4567-e89b-42d3-a456-426614174000''"
    by (rule sample_key_is_uuidv4)
  have a1: "20 < length ''123e4567-e89b-42d3-a456-426614174000''"
    and a2: "3 < length ''123e4567-e89b-42d3-a456-426614174000''"
    by simp_all
  have b1: "CHR ''f'' \<noteq> ''123e4567-e89b-42d3-a456-426614174000'' ! 20"
    by code_simp
  have b2: "CHR ''f'' \<noteq> ''123e4567-e89b-42d3-a456-426614174000'' ! 3"
    by code_simp
  have c1: "\<not> stub_compareSync (''123e4567-e89b-42d3-a456-426614174000''[20 := CHR ''f''])
          (stub_hash ''123e4567-e89b-42d3-a456-426614174000'' 10)"
    by code_simp
  have c2: "\<not> stub_compareSync (''123e4567-e89b-42d3-a456-426614174000''[3 := CHR ''f''])
          (stub_hash ''123e4567-e89b-42d3-a456-426614174000'' 10)"
    by code_simp
  have d: "\<not> syntax_character CHR ''f''"
    by code_simp
  have e1: "validation stub_compareSync (''123e4567-e89b-42d3-a456-426614174000''[20 := CHR ''f''])
        (mockDbApiKey stub_hash ''123e4567-e89b-42d3-a456-426614174000'')
       = Inr (FAILURE_Bcrypt, [DbFind, BcryptCompare])"
    using altered_key_never_verifies [where hash = stub_hash and compareSync = stub_compareSync, OF u a1 b1 c1] by simp
  have e2: "validation stub_compareSync (''123e4567-e89b-42d3-a456-426614174000''[3 := CHR ''f''])
        (mockDbApiKey stub_hash ''123e4567-e89b-42d3-a456-426614174000'')
       = Inr (FAILURE_Regex, [DbFind])"
    using altered_key_never_verifies [where hash = stub_hash and compareSync = stub_compareSync, OF u a2 b2 c2] d by simp
  show ?thesis
    using u b1 b2 c1 c2 d e1 e2 by blast
qed

subsection \<open>Keys shorter than the prefix\<close>

text \<open>
  The script has no check of the key's length before the lookup. The empty key gives the
  pattern \<^verbatim>\<open>^\<close>, which matches every stored value, so both the lookup and the digest
  comparison are made.
\<close>

theorem empty_key_reaches_bcrypt:
  "validation stub_compareSync ''''
     (mockDbApiKey stub_hash ''123e4567-e89b-42d3-a456-426614174000'')
   = Inr (FAILURE_Bcrypt, [DbFind, BcryptCompare])"
  by code_simp

text \<open>
  C4, as the script has it. For every presented key shorter than 17 characters that has
  no syntax character, the whole key becomes the pattern and the lookup is always made;
  the digest comparison is made exactly when the key is a leading part of the stored
  value (always, for the empty key) and then decides the result; otherwise the result is
  the regex failure.
\<close>

theorem short_key_validation:
  assumes "length incomingApiKey < 17" and "\<forall>c\<in>set incomingApiKey. \<not> syntax_character c"
  shows "validation compareSync incomingApiKey doc =
     (if prefix incomingApiKey (apiKey doc)
      then Inr (if compareSync incomingApiKey (hashedApiKey doc) then SUCCESS_Verified
                else FAILURE_Bcrypt, [DbFind, BcryptCompare])
      else Inr (FAILURE_Regex, [DbFind]))"
proof -
  have s: "substr0 incomingApiKey 17 = incomingApiKey"
    using assms(1) by (simp add: substr0_def)
  have "isMatch incomingApiKey doc = Inr (prefix incomingApiKey (apiKey doc))"
    using isMatch_literal [of incomingApiKey doc] assms(2) by (simp add: s)
  then show ?thesis
    by (simp add: validation_def)
qed

theorem short_key_validation_witness:
  "length '''' < (17::nat)
   \<and> validation stub_compareSync '''' (mockDbApiKey stub_hash ''123e4567-e89b-42d3-a456-426614174000'')
       = Inr (FAILURE_Bcrypt, [DbFind, BcryptCompare])
   \<and> length ''abc'' < (17::nat)
   \<and> list_all (\<lambda>c. \<not> syntax_character c) ''abc''
   \<and> validation stub_compareSync ''abc'' (mockDbApiKey stub_hash ''123e4567-e89b-42d3-a456-426614174000'')
       = Inr (FAILURE_Regex, [DbFind])"
proof -
  have a1: "length '''' < (17::nat)" and a2: "length ''abc'' < (17::nat)"
    by simp_all
  have b1: "\<forall>c\<in>set ''''. \<not> syntax_character c"
    by simp
  have l: "list_all (\<lambda>c. \<not> syntax_character c) ''abc''"
    by code_simp
  then have b2: "\<forall>c\<in>set ''abc''. \<not> syntax_character c"
    by (simp add: list_all_iff)
  have p1: "prefix '''' (apiKey (mockDbApiKey stub_hash ''123e4567-e89b-42d3-a456-426614174000''))"
    by simp
  have p2: "\<not> prefix ''abc'' (apiKey (mockDbApiKey stub_hash ''123e4567-e89b-42d3-a456-426614174000''))"
    by code_simp
  have q: "\<not> stub_compareSync ''''
      (hashedApiKey (mockDbApiKey stub_hash ''123e4567-e89b-42d3-a456-426614174000''))"
    by code_simp
  have e1: "validation stub_compareSync '''' (mockDbApiKey stub_hash ''123e4567-e89b-42d3-a456-426614174000'')
       = Inr (FAILURE_Bcrypt, [DbFind, BcryptCompare])"
    using short_key_validation [OF a1 b1, of stub_compareSync
        "mockDbApiKey stub_hash ''123e4567-e89b-42d3-a456-426614174000''"] p1 q
    by simp
  have e2: "validation stub_compareSync ''abc'' (mockDbApiKey stub_hash ''123e4567-e89b-42d3-a456-426614174000'')
       = Inr (FAILURE_Regex, [DbFind])"
    using short_key_validation [OF a2 b2, of stub_compareSync
        "mockDbApiKey stub_hash ''123e4567-e89b-42d3-a456-426614174000''"] p2
    by simp
  show ?thesis
    using a1 a2 l e1 e2 by blast
qed

subsection \<open>A key with a character appended\<close>

text \<open>
  A valid key followed by \<^verbatim>\<open>x\<close> has the prefix of the valid key: the lookup is made and
  matches, and the digest comparison is made.
\<close>

theorem appended_key_reaches_store:
  "validation stub_compareSync (''123e4567-e89b-42d3-a456-426614174000'' @ ''x'')
     (mockDbApiKey stub_hash ''123e4567-e89b-42d3-a456-426614174000'')
   = Inr (FAILURE_Bcrypt, [DbFind, BcryptCompare])"
  by code_simp

text \<open>
  C5, as the script has it. For every generated key, validating the key with \<^verbatim>\<open>x\<close>
  appended is rejected, bcrypt rejecting the longer string, after exactly one lookup,
  which matches, and one digest comparison.
\<close>

theorem appended_key_rejected_by_bcrypt:
  assumes "is_uuidv4 key" and "\<not> compareSync (key @ ''x'') (hash key 10)"
  shows "isMatch (key @ ''x'') (mockDbApiKey hash key) = Inr True
    \<and> validation compareSync (key @ ''x'') (mockDbApiKey hash key)
        = Inr (FAILURE_Bcrypt, [DbFind, BcryptCompare])"
proof -
  have "length key = 36"
    using assms(1) by (rule is_uuidv4_length)
  then have "substr0 (key @ ''x'') 17 = substr0 key 17"
    by (simp add: substr0_def)
  then have "isMatch (key @ ''x'') (mockDbApiKey hash key) = isMatch key (mockDbApiKey hash key)"
    by (rule isMatch_same_prefix)
  then have m: "isMatch (key @ ''x'') (mockDbApiKey hash key) = Inr True"
    using isMatch_own_document [OF assms(1)] by simp
  show ?thesis
    using assms(2) by (simp add: m validation_matched [OF m] mockDbApiKey_fields)
qed

theorem appended_key_rejected_by_bcrypt_witness:
  "is_uuidv4 ''123e4567-e89b-42d3-a456-426614174000''
   \<and> \<not> stub_compareSync (''123e4567-e89b-42d3-a456-426614174000'' @ ''x'')
          (stub_hash ''123e4567-e89b-42d3-a456-426614174000'' 10)
   \<and> validation stub_compareSync (''123e4567-e89b-42d3-a456-426614174000'' @ ''x'')
        (mockDbApiKey stub_hash ''123e4567-e89b-42d3-a456-426614174000'')
       = Inr (FAILURE_Bcrypt, [DbFind, BcryptCompare])"
proof -
  have u: "is_uuidv4 ''123e4567-e89b-42d3-a456-426614174000''"
    by (rule sample_key_is_uuidv4)
  have c: "\<not> stub_compareSync (''123e4567-e89b-42d3-a456-426614174000'' @ ''x'')
          (stub_hash ''123e4567-e89b-42d3-a456-426614174000'' 10)"
    by code_simp
  show ?thesis
    using u c appended_key_rejected_by_bcrypt [where hash = stub_hash and compareSync = stub_compareSync, OF u c] by blast
qed

subsection \<open>The two failures\<close>

text \<open>
  The script reports a lookup that finds nothing and a digest comparison that fails as
  two different results.
\<close>

theorem failures_are_distinguished:
  "validation stub_compareSync ''223e4567-e89b-42d3-a456-426614174000''
     (mockDbApiKey stub_hash ''123e4567-e89b-42d3-a456-426614174000'')
     = Inr (FAILURE_Regex, [DbFind])
   \<and> validation stub_compareSync ''123e4567-e89b-42d3-a456-426614174001''
     (mockDbApiKey stub_hash ''123e4567-e89b-42d3-a456-426614174000'')
     = Inr (FAILURE_Bcrypt, [DbFind, BcryptCompare])
   \<and> FAILURE_Regex \<noteq> FAILURE_Bcrypt"
  by code_simp

text \<open>
  C6, as the script has it. A validation that fails names the step that failed: the
  regex failure exactly when the lookup found no match, after the lookup alone; the bcrypt
  failure exactly when the lookup matched and the digest comparison rejected the key, after
  both calls. Revocation is no third failure: the result does not depend on \<open>revokedAt\<close>.
\<close>

theorem failure_names_its_step:
  assumes "validation compareSync incomingApiKey doc = Inr (out, calls)"
    and "out \<noteq> SUCCESS_Verified"
  shows "(if out = FAILURE_Regex
          then isMatch incomingApiKey doc = Inr False \<and> calls = [DbFind]
          else out = FAILURE_Bcrypt \<and> isMatch incomingApiKey doc = Inr True
            \<and> \<not> compareSync incomingApiKey (hashedApiKey doc)
            \<and> calls = [DbFind, BcryptCompare])
    \<and> validation compareSync incomingApiKey (doc\<lparr>revokedAt := r\<rparr>) = Inr (out, calls)"
proof -
  have 1: "if out = FAILURE_Regex
          then isMatch incomingApiKey doc = Inr False \<and> calls = [DbFind]
          else out = FAILURE_Bcrypt \<and> isMatch incomingApiKey doc = Inr True
            \<and> \<not> compareSync incomingApiKey (hashedApiKey doc)
            \<and> calls = [DbFind, BcryptCompare]"
    using assms by (auto simp: validation_def split: sum.splits if_splits)
  have "isMatch incomingApiKey (doc\<lparr>revokedAt := r\<rparr>) = isMatch incomingApiKey doc"
    by (simp add: isMatch_def split: sum.splits)
  then have "validation compareSync incomingApiKey (doc\<lparr>revokedAt := r\<rparr>)
      = validation compareSync incomingApiKey doc"
    by (simp add: validation_def split: sum.splits)
  with 1 assms(1) show ?thesis by simp
qed

theorem failure_names_its_step_witness:
  "validation stub_compareSync ''223e4567-e89b-42d3-a456-426614174000''
     (mockDbApiKey stub_hash ''123e4567-e89b-42d3-a456-426614174000'')
     = Inr (FAILURE_Regex, [DbFind])
   \<and> FAILURE_Regex \<noteq> SUCCESS_Verified
   \<and> isMatch ''223e4567-e89b-42d3-a456-426614174000''
       (mockDbApiKey stub_hash ''123e4567-e89b-42d3-a456-426614174000'') = Inr False
   \<and> validation stub_compareSync ''123e4567-e89b-42d3-a456-426614174001''
     (mockDbApiKey stub_hash ''123e4567-e89b-42d3-a456-426614174000'')
     = Inr (FAILURE_Bcrypt, [DbFind, BcryptCompare])
   \<and> FAILURE_Bcrypt \<noteq> SUCCESS_Verified
   \<and> isMatch ''123e4567-e89b-42d3-a456-426614174001''
       (mockDbApiKey stub_hash ''123e4567-e89b-42d3-a456-426614174000'') = Inr True"
proof -
  have a1: "validation stub_compareSync ''223e4567-e89b-42d3-a456-426614174000''
     (mockDbApiKey stub_hash ''123e4567-e89b-42d3-a456-426614174000'')
     = Inr (FAILURE_Regex, [DbFind])"
    by code_simp
  have a2: "validation stub_compareSync ''123e4567-e89b-42d3-a456-426614174001''
     (mockDbApiKey stub_hash ''123e4567-e89b-42d3-a456-426614174000'')
     = Inr (FAILURE_Bcrypt, [DbFind, BcryptCompare])"
    by code_simp
  have b1: "FAILURE_Regex \<noteq> SUCCESS_Verified" and b2: "FAILURE_Bcrypt \<noteq> SUCCESS_Verified"
    by simp_all
  have m1: "isMatch ''223e4567-e89b-42d3-a456-426614174000''
       (mockDbApiKey stub_hash ''123e4567-e89b-42d3-a456-426614174000'') = Inr False"
    using failure_names_its_step [OF a1 b1] by simp
  have m2: "isMatch ''123e4567-e89b-42d3-a456-426614174001''
       (mockDbApiKey stub_hash ''123e4567-e89b-42d3-a456-426614174000'') = Inr True"
    using failure_names_its_step [OF a2 b2] by simp
  show ?thesis
    using a1 a2 b1 b2 m1 m2 by blast
qed

subsection \<open>The lookup\<close>

text \<open>
  The lookup is a pattern match, not an equality: a prefix of seventeen dots matches a
  stored value whose first 17 characters are different.
\<close>

theorem lookup_is_pattern_match:
  "isMatch ''.................''
     (mockDbApiKey stub_hash ''123e4567-e89b-42d3-a456-426614174000'') = Inr True
   \<and> substr0 (apiKey (mockDbApiKey stub_hash ''123e4567-e89b-42d3-a456-426614174000'')) 17
       \<noteq> substr0 ''.................'' 17"
  by code_simp

text \<open>
  C7, as the script has it. For every presented key of at least 17 characters whose first
  17 characters contain no syntax character, the lookup matches exactly the documents
  whose stored value begins with these 17 characters: none is omitted and no other is
  returned.
\<close>

theorem lookup_of_literal_prefix:
  assumes "17 \<le> length incomingApiKey"
    and "\<forall>c\<in>set (substr0 incomingApiKey 17). \<not> syntax_character c"
  shows "isMatch incomingApiKey doc = Inr (substr0 (apiKey doc) 17 = substr0 incomingApiKey 17)
    \<and> filter (\<lambda>d. isMatch incomingApiKey d = Inr True) docs
        = filter (\<lambda>d. substr0 (apiKey d) 17 = substr0 incomingApiKey 17) docs"
proof -
  have len: "length (substr0 incomingApiKey 17) = 17"
    using assms(1) by (simp add: substr0_def)
  have m: "isMatch incomingApiKey d = Inr (substr0 (apiKey d) 17 = substr0 incomingApiKey 17)" for d
    using isMatch_literal [OF assms(2), of d] prefix_full_length [of "substr0 incomingApiKey 17" "apiKey d"]
    by (simp add: len) (simp add: substr0_def)
  show ?thesis
    by (simp add: m)
qed

theorem lookup_of_literal_prefix_witness:
  "(17::nat) \<le> length ''123e4567-e89b-42d3-a456-426614174001''
   \<and> list_all (\<lambda>c. \<not> syntax_character c) (substr0 ''123e4567-e89b-42d3-a456-426614174001'' 17)
   \<and> isMatch ''123e4567-e89b-42d3-a456-426614174001''
       (mockDbApiKey stub_hash ''123e4567-e89b-42d3-a456-426614174000'') = Inr True
   \<and> isMatch ''123e4567-e89b-42d3-a456-426614174001''
       (mockDbApiKey stub_hash ''923e4567-e89b-42d3-a456-426614174000'') = Inr False"
proof -
  have a: "(17::nat) \<le> length ''123e4567-e89b-42d3-a456-426614174001''"
    by simp
  have l: "list_all (\<lambda>c. \<not> syntax_character c) (substr0 ''123e4567-e89b-42d3-a456-426614174001'' 17)"
    by code_simp
  then have b: "\<forall>c\<in>set (substr0 ''123e4567-e89b-42d3-a456-426614174001'' 17). \<not> syntax_character c"
    by (simp add: list_all_iff)
  have p1: "substr0 (apiKey (mockDbApiKey stub_hash ''123e4567-e89b-42d3-a456-426614174000'')) 17
      = substr0 ''123e4567-e89b-42d3-a456-426614174001'' 17"
    by code_simp
  have p2: "substr0 (apiKey (mockDbApiKey stub_hash ''923e4567-e89b-42d3-a456-426614174000'')) 17
      \<noteq> substr0 ''123e4567-e89b-42d3-a456-426614174001'' 17"
    by code_simp
  have e1: "isMatch ''123e4567-e89b-42d3-a456-426614174001''
       (mockDbApiKey stub_hash ''123e4567-e89b-42d3-a456-426614174000'') = Inr True"
    using lookup_of_literal_prefix [OF a b] p1 by simp
  have e2: "isMatch ''123e4567-e89b-42d3-a456-426614174001''
       (mockDbApiKey stub_hash ''923e4567-e89b-42d3-a456-426614174000'') = Inr False"
    using lookup_of_literal_prefix [OF a b] p2 by simp
  show ?thesis
    using a l e1 e2 by blast
qed

subsection \<open>What is stored\<close>

text \<open>
  C8. For every generated key whose digest has the shape of a bcrypt hash, the stored
  digest is not the key, does not contain the key and is not contained in it; the
  document keeps the masked value (the first 17 characters and asterisks) and the digest,
  and neither of them is or contains the key.
\<close>

theorem digest_hides_key:
  assumes "is_uuidv4 key" and "is_bcrypt_digest (hash key 10)"
  shows "hashedApiKey (mockDbApiKey hash key) \<noteq> key
    \<and> \<not> sublist key (hashedApiKey (mockDbApiKey hash key))
    \<and> \<not> sublist (hashedApiKey (mockDbApiKey hash key)) key
    \<and> apiKey (mockDbApiKey hash key) = substr0 key 17 @ repeat ''*'' 18
    \<and> apiKey (mockDbApiKey hash key) \<noteq> key
    \<and> \<not> sublist key (apiKey (mockDbApiKey hash key))"
proof -
  have len: "length key = 36"
    using assms(1) by (rule is_uuidv4_length)
  have hy: "CHR ''-'' \<in> set key"
    using assms(1) by (rule is_uuidv4_hyphen)
  have nh: "CHR ''-'' \<notin> set (hash key 10)"
    using assms(2) by (rule bcrypt_digest_no_hyphen)
  have l60: "length (hash key 10) = 60"
    using assms(2) by (simp add: is_bcrypt_digest_def)
  have 1: "hash key 10 \<noteq> key"
    using len l60 by auto
  have 2: "\<not> sublist key (hash key 10)"
    using hy nh set_mono_sublist [of key "hash key 10"] by blast
  have 3: "\<not> sublist (hash key 10) key"
    using len l60 sublist_length_le [of "hash key 10" key] by auto
  have l35: "length (storedApiKey key) = 35"
    by (simp add: storedApiKey_eq len)
  have 4: "storedApiKey key \<noteq> key"
    using l35 len by auto
  have 5: "\<not> sublist key (storedApiKey key)"
    using len l35 sublist_length_le [of key "storedApiKey key"] by auto
  show ?thesis
    using 1 2 3 4 5 by (simp add: mockDbApiKey_fields) (simp add: storedApiKey_def)
qed

theorem digest_hides_key_witness:
  "is_uuidv4 ''123e4567-e89b-42d3-a456-426614174000''
   \<and> is_bcrypt_digest (stub_hash ''123e4567-e89b-42d3-a456-426614174000'' 10)
   \<and> hashedApiKey (mockDbApiKey stub_hash ''123e4567-e89b-42d3-a456-426614174000'')
       \<noteq> ''123e4567-e89b-42d3-a456-426614174000''
   \<and> \<not> sublist ''123e4567-e89b-42d3-a456-426614174000''
          (hashedApiKey (mockDbApiKey stub_hash ''123e4567-e89b-42d3-a456-426614174000''))
   \<and> \<not> sublist (hashedApiKey (mockDbApiKey stub_hash ''123e4567-e89b-42d3-a456-426614174000''))
          ''123e4567-e89b-42d3-a456-426614174000''
   \<and> \<not> sublist ''123e4567-e89b-42d3-a456-426614174000''
          (apiKey (mockDbApiKey stub_hash ''123e4567-e89b-42d3-a456-426614174000''))"
proof -
  have u: "is_uuidv4 ''123e4567-e89b-42d3-a456-426614174000''"
    by (rule sample_key_is_uuidv4)
  have d: "is_bcrypt_digest (stub_hash ''123e4567-e89b-42d3-a456-426614174000'' 10)"
    by code_simp
  show ?thesis
    using u d digest_hides_key [where hash = stub_hash, OF u d] by blast
qed

subsection \<open>Keys that make the pattern invalid\<close>

text \<open>
  C9. The validation returns a result whenever the first 17 characters of the presented
  key contain no syntax character of the pattern language, which holds for every
  canonical UUID; without this it can raise: a key whose first 17 characters hold an
  opening parenthesis among characters that are no syntax characters makes
  \<^verbatim>\<open>new RegExp\<close> throw a SyntaxError.
\<close>

theorem validation_total_on_literal_prefix:
  "((\<forall>c\<in>set (substr0 incomingApiKey 17). \<not> syntax_character c) \<longrightarrow>
      (\<exists>r. validation compareSync incomingApiKey doc = Inr r))
   \<and> (is_uuidv4 incomingApiKey \<longrightarrow> (\<forall>c\<in>set (substr0 incomingApiKey 17). \<not> syntax_character c))
   \<and> ((\<forall>c\<in>set a. \<not> syntax_character c) \<and> (\<forall>c\<in>set b. \<not> syntax_character c) \<and> length a < 17 \<longrightarrow>
      validation compareSync (a @ CHR ''('' # b) doc = Inl SyntaxError)"
proof (intro conjI impI)
  assume "\<forall>c\<in>set (substr0 incomingApiKey 17). \<not> syntax_character c"
  then have "isMatch incomingApiKey doc = Inr (prefix (substr0 incomingApiKey 17) (apiKey doc))"
    by (rule isMatch_literal)
  then show "\<exists>r. validation compareSync incomingApiKey doc = Inr r"
    by (simp add: validation_def)
next
  assume "is_uuidv4 incomingApiKey"
  then show "\<forall>c\<in>set (substr0 incomingApiKey 17). \<not> syntax_character c"
    by (rule uuid_prefix_literal)
next
  assume h: "(\<forall>c\<in>set a. \<not> syntax_character c) \<and> (\<forall>c\<in>set b. \<not> syntax_character c) \<and> length a < 17"
  then have t: "substr0 (a @ CHR ''('' # b) 17 = a @ CHR ''('' # take (16 - length a) b"
    by (simp add: substr0_def take_Cons')
  have "\<forall>c\<in>set (take (16 - length a) b). \<not> syntax_character c"
    using h by (auto dest: in_set_takeD)
  with h have "RegExp (CHR ''^'' # a @ CHR ''('' # take (16 - length a) b) = Inl SyntaxError"
    by (simp add: RegExp_unterminated_group)
  then have "isMatch (a @ CHR ''('' # b) doc = Inl SyntaxError"
    by (simp add: isMatch_def t)
  then show "validation compareSync (a @ CHR ''('' # b) doc = Inl SyntaxError"
    by (simp add: validation_def)
qed

theorem validation_total_on_literal_prefix_witness:
  "is_uuidv4 ''123e4567-e89b-42d3-a456-426614174000''
   \<and> list_all (\<lambda>c. \<not> syntax_character c) (substr0 ''123e4567-e89b-42d3-a456-426614174000'' 17)
   \<and> (\<exists>r. validation stub_compareSync ''123e4567-e89b-42d3-a456-426614174000''
         (mockDbApiKey stub_hash ''123e4567-e89b-42d3-a456-426614174000'') = Inr r)
   \<and> list_all (\<lambda>c. \<not> syntax_character c) ''123e''
   \<and> list_all (\<lambda>c. \<not> syntax_character c) ''567-e89b-42d3-a456-426614174000''
   \<and> length ''123e'' < (17::nat)
   \<and> validation stub_compareSync (''123e'' @ CHR ''('' # ''567-e89b-42d3-a456-426614174000'')
         (mockDbApiKey stub_hash ''123e4567-e89b-42d3-a456-426614174000'') = Inl SyntaxError"
proof -
  have u: "is_uuidv4 ''123e4567-e89b-42d3-a456-426614174000''"
    by (rule sample_key_is_uuidv4)
  note t = validation_total_on_literal_prefix
    [where compareSync = stub_compareSync
       and doc = "mockDbApiKey stub_hash ''123e4567-e89b-42d3-a456-426614174000''"
       and incomingApiKey = "''123e4567-e89b-42d3-a456-426614174000''"
       and a = "''123e''" and b = "''567-e89b-42d3-a456-426614174000''"]
  have l: "\<forall>c\<in>set (substr0 ''123e4567-e89b-42d3-a456-426614174000'' 17). \<not> syntax_character c"
    using t u by blast
  then have l': "list_all (\<lambda>c. \<not> syntax_character c) (substr0 ''123e4567-e89b-42d3-a456-426614174000'' 17)"
    by (simp only: list_all_iff)
  have r: "\<exists>r. validation stub_compareSync ''123e4567-e89b-42d3-a456-426614174000''
         (mockDbApiKey stub_hash ''123e4567-e89b-42d3-a456-426614174000'') = Inr r"
    using t l by blast
  have a: "list_all (\<lambda>c. \<not> syntax_character c) ''123e''"
    by code_simp
  have b: "list_all (\<lambda>c. \<not> syntax_character c) ''567-e89b-42d3-a456-426614174000''"
    by code_simp
  have n: "length ''123e'' < (17::nat)"
    by simp
  have e: "validation stub_compareSync (''123e'' @ CHR ''('' # ''567-e89b-42d3-a456-426614174000'')
         (mockDbApiKey stub_hash ''123e4567-e89b-42d3-a456-426614174000'') = Inl SyntaxError"
    using t a b n unfolding list_all_iff by blast
  show ?thesis
    using u l' r a b n e by blast
qed

subsection \<open>The masked stored value\<close>

text \<open>
  C10. For every generated key, a 36-character canonical UUID string, the stored masked
  value is the first 17 characters of the key followed by 18 asterisks; it has length 35
  and is never equal to the key.
\<close>

theorem storedApiKey_masked:
  assumes "is_uuidv4 key"
  shows "storedApiKey key = take 17 key @ replicate 18 CHR ''*''
    \<and> length (storedApiKey key) = 35
    \<and> storedApiKey key \<noteq> key
    \<and> apiKey (mockDbApiKey hash key) = storedApiKey key"
proof -
  have len: "length key = 36"
    using assms by (rule is_uuidv4_length)
  have l35: "length (storedApiKey key) = 35"
    by (simp add: storedApiKey_eq len)
  have "storedApiKey key \<noteq> key"
    using l35 len by auto
  then show ?thesis
    using l35 by (simp add: storedApiKey_eq mockDbApiKey_fields)
qed

theorem storedApiKey_masked_witness:
  "is_uuidv4 ''123e4567-e89b-42d3-a456-426614174000''
   \<and> storedApiKey ''123e4567-e89b-42d3-a456-426614174000'' = ''123e4567-e89b-42d******************''
   \<and> length (storedApiKey ''123e4567-e89b-42d3-a456-426614174000'') = 35
   \<and> storedApiKey ''123e4567-e89b-42d3-a456-426614174000'' \<noteq> ''123e4567-e89b-42d3-a456-426614174000''"
proof -
  have u: "is_uuidv4 ''123e4567-e89b-42d3-a456-426614174000''"
    by (rule sample_key_is_uuidv4)
  have r: "replicate 18 CHR ''*'' = ''******************''"
    by (simp add: numeral_eq_Suc)
  show ?thesis
    using u storedApiKey_masked [OF u] by (simp add: r)
qed

end
